theory Spec2Isabelle
  imports Main "HOL-Library.Word"
begin

section \<open>Data model\<close>

text \<open>
  The participant controller works on two tables, Event and Participant, through an
  object-relational mapper. A table is the list of its rows; primary keys and timestamps
  are natural numbers, counters are integers (a decrement may take a counter below zero).
\<close>

type_synonym ident = nat
type_synonym timestamp = nat
type_synonym byte = "8 word"

text \<open>
  Modelled from the spec: the Event model (its declaration is not part of the sources);
  section 3 of the specification lists its attributes. A capacity of \<open>None\<close> is JavaScript's
  \<open>null\<close>.
\<close>

record event =
  ev_id :: ident
  ev_name :: string
  ev_date :: timestamp
  ev_venue :: string
  ev_status :: string
  capacity :: "int option"
  totalRegistrations :: int
  totalAttendees :: int
  organizerId :: ident
  requiresApproval :: bool

text \<open>
  Modelled from the spec: the Participant model (its declaration is not part of the
  sources); section 3 of the specification lists its attributes.
\<close>

record participant =
  p_id :: ident
  eventId :: ident
  firstName :: string
  lastName :: string
  email :: string
  ticketNumber :: string
  p_status :: string
  checkedIn :: bool
  checkInTime :: "timestamp option"
  checkInMethod :: string
  registrationDate :: timestamp

record db =
  events :: "event list"
  participants :: "participant list"

text \<open>The authenticated caller, \<open>req.user\<close>.\<close>

record user =
  u_id :: ident
  role :: string

text \<open>
  The body of a registration request: \<open>firstName\<close>, \<open>lastName\<close> and \<open>email\<close>, and any
  further entry named after a Participant attribute (\<open>None\<close> when the key is absent).
\<close>

record body =
  b_firstName :: string
  b_lastName :: string
  b_email :: string
  b_eventId :: "ident option"
  b_ticketNumber :: "string option"
  b_status :: "string option"
  b_checkedIn :: "bool option"
  b_checkInTime :: "timestamp option option"
  b_checkInMethod :: "string option"
  b_registrationDate :: "timestamp option"

text \<open>
  The values object of a partial update: one optional entry per Participant attribute.
\<close>

record attrs =
  a_eventId :: "ident option"
  a_firstName :: "string option"
  a_lastName :: "string option"
  a_email :: "string option"
  a_ticketNumber :: "string option"
  a_status :: "string option"
  a_checkedIn :: "bool option"
  a_checkInTime :: "timestamp option option"
  a_checkInMethod :: "string option"
  a_registrationDate :: "timestamp option"

text \<open>The query string of the listing request; \<open>page\<close> and \<open>limit\<close> are read as numbers.\<close>

record query =
  q_status :: "string option"
  q_checkedIn :: "string option"
  q_search :: "string option"
  q_page :: "int option"
  q_limit :: "int option"

record template_args =
  t_name :: string
  t_eventName :: string
  t_eventDate :: timestamp
  t_eventVenue :: string
  t_ticketNumber :: string

record email_job =
  j_to :: string
  j_subject :: string
  j_html :: string

text \<open>
  What a handler receives from outside the controller: the bytes of
  \<open>crypto.randomBytes\<close>, the primary key the store gives to a new row, the clock, the
  template renderer, the queue (\<open>addEmailJob\<close> is \<open>True\<close> when the call returns and
  \<open>False\<close> when it throws) and the store's case-insensitive pattern match
  (pattern first).
\<close>

record env =
  randomBytes :: "nat \<Rightarrow> byte list"
  newId :: ident
  now :: timestamp
  registrationConfirmationTemplate :: "template_args \<Rightarrow> string"
  addEmailJob :: "email_job \<Rightarrow> bool"
  iLike :: "string \<Rightarrow> string \<Rightarrow> bool"

datatype payload =
    Error string
  | ParticipantMessage participant string
  | ParticipantPage "participant list" nat int "int option"
  | ParticipantDetail participant "ident \<times> string \<times> timestamp \<times> string"
  | ParticipantOnly participant
  | Message string
  | BulkResult string "participant list"

datatype response = Reply nat payload

datatype counter = TotalRegistrations | TotalAttendees

section \<open>Store operations\<close>

definition Event_findByPk :: "db \<Rightarrow> ident \<Rightarrow> event option" where
  "Event_findByPk d k = find (\<lambda>e. ev_id e = k) (events d)"

definition Participant_findByPk :: "db \<Rightarrow> ident \<Rightarrow> participant option" where
  "Participant_findByPk d k = find (\<lambda>p. p_id p = k) (participants d)"

definition Participant_findOne :: "db \<Rightarrow> ident \<Rightarrow> string \<Rightarrow> participant option" where
  "Participant_findOne d e m = find (\<lambda>p. eventId p = e \<and> email p = m) (participants d)"

definition Participant_findAll :: "db \<Rightarrow> ident list \<Rightarrow> participant list" where
  "Participant_findAll d ks = filter (\<lambda>p. p_id p \<in> set ks) (participants d)"

definition bump :: "counter \<Rightarrow> int \<Rightarrow> event \<Rightarrow> event" where
  "bump c n e = (case c of
      TotalRegistrations \<Rightarrow> e\<lparr>totalRegistrations := totalRegistrations e + n\<rparr>
    | TotalAttendees \<Rightarrow> e\<lparr>totalAttendees := totalAttendees e + n\<rparr>)"

definition Event_increment :: "event \<Rightarrow> counter \<Rightarrow> int \<Rightarrow> db \<Rightarrow> db" where
  "Event_increment ev c n d =
     d\<lparr>events := map (\<lambda>e. if ev_id e = ev_id ev then bump c n e else e) (events d)\<rparr>"

definition Event_decrement :: "event \<Rightarrow> counter \<Rightarrow> int \<Rightarrow> db \<Rightarrow> db" where
  "Event_decrement ev c n d = Event_increment ev c (- n) d"

text \<open>
  Modelled from the spec: \<open>Participant.create\<close>. The store rejects (throws on) a values
  object without \<open>eventId\<close>, \<open>ticketNumber\<close> or \<open>status\<close>; the other attributes have the
  defaults of section 3 (not checked in, no check-in time, method "manual", registration
  date the time of creation).
\<close>

definition Participant_build :: "env \<Rightarrow> body \<Rightarrow> participant option" where
  "Participant_build en v =
     (case (b_eventId v, b_ticketNumber v, b_status v) of
        (Some e, Some t, Some s) \<Rightarrow>
          Some \<lparr> p_id = newId en, eventId = e,
                 firstName = b_firstName v, lastName = b_lastName v, email = b_email v,
                 ticketNumber = t, p_status = s,
                 checkedIn = (case b_checkedIn v of Some c \<Rightarrow> c | None \<Rightarrow> False),
                 checkInTime = (case b_checkInTime v of Some c \<Rightarrow> c | None \<Rightarrow> None),
                 checkInMethod = (case b_checkInMethod v of Some c \<Rightarrow> c | None \<Rightarrow> ''manual''),
                 registrationDate = (case b_registrationDate v of Some c \<Rightarrow> c | None \<Rightarrow> now en) \<rparr>
      | _ \<Rightarrow> None)"

definition Participant_create :: "env \<Rightarrow> body \<Rightarrow> db \<Rightarrow> (participant \<times> db) option" where
  "Participant_create en v d =
     (case Participant_build en v of
        None \<Rightarrow> None
      | Some p \<Rightarrow> Some (p, d\<lparr>participants := participants d @ [p]\<rparr>))"

definition orElse :: "'a option \<Rightarrow> 'a \<Rightarrow> 'a" where
  "orElse x d = (case x of Some y \<Rightarrow> y | None \<Rightarrow> d)"

definition applyAttrs :: "attrs \<Rightarrow> participant \<Rightarrow> participant" where
  "applyAttrs a p =
     p\<lparr> eventId := orElse (a_eventId a) (eventId p),
        firstName := orElse (a_firstName a) (firstName p),
        lastName := orElse (a_lastName a) (lastName p),
        email := orElse (a_email a) (email p),
        ticketNumber := orElse (a_ticketNumber a) (ticketNumber p),
        p_status := orElse (a_status a) (p_status p),
        checkedIn := orElse (a_checkedIn a) (checkedIn p),
        checkInTime := orElse (a_checkInTime a) (checkInTime p),
        checkInMethod := orElse (a_checkInMethod a) (checkInMethod p),
        registrationDate := orElse (a_registrationDate a) (registrationDate p) \<rparr>"

text \<open>
  \<open>participant.update(values)\<close>: the instance takes the values and the row with the
  instance's primary key is rewritten with them. The result is the updated instance and
  the new store.
\<close>

definition Participant_update :: "participant \<Rightarrow> attrs \<Rightarrow> db \<Rightarrow> participant \<times> db" where
  "Participant_update p a d =
     (applyAttrs a p,
      d\<lparr>participants := map (\<lambda>r. if p_id r = p_id p then applyAttrs a r else r) (participants d)\<rparr>)"

definition Participant_destroy :: "participant \<Rightarrow> db \<Rightarrow> db" where
  "Participant_destroy p d = d\<lparr>participants := filter (\<lambda>r. p_id r \<noteq> p_id p) (participants d)\<rparr>"

section \<open>Ticket numbers\<close>

definition hexDigit :: "nat \<Rightarrow> char" where
  "hexDigit n = ''0123456789abcdef'' ! (n mod 16)"

definition toString_hex :: "byte list \<Rightarrow> string" where
  "toString_hex bs = concat (map (\<lambda>b. [hexDigit (unat b div 16), hexDigit (unat b mod 16)]) bs)"

definition upperChar :: "char \<Rightarrow> char" where
  "upperChar c =
     (case map_of (zip ''abcdefghijklmnopqrstuvwxyz'' ''ABCDEFGHIJKLMNOPQRSTUVWXYZ'') c of
        Some u \<Rightarrow> u
      | None \<Rightarrow> c)"

definition toUpperCase :: "string \<Rightarrow> string" where
  "toUpperCase s = map upperChar s"

definition makeTicketNumber :: "env \<Rightarrow> string" where
  "makeTicketNumber en = ''TKT-'' @ toUpperCase (toString_hex (randomBytes en 4))"

definition isUpperHex :: "char \<Rightarrow> bool" where
  "isUpperHex c = (c \<in> set ''0123456789ABCDEF'')"

definition matchesTicketPattern :: "string \<Rightarrow> bool" where
  "matchesTicketPattern s =
     (take 4 s = ''TKT-'' \<and> length (drop 4 s) = 8 \<and> list_all isUpperHex (drop 4 s))"

section \<open>Registration\<close>

text \<open>
  The capacity test of the handler,
  \<open>event.capacity && event.totalRegistrations >= event.capacity\<close>: a capacity of
  \<open>null\<close> and a capacity of 0 are both falsy, so the comparison is made for a non-zero
  capacity only.
\<close>

definition capacityReached :: "event \<Rightarrow> bool" where
  "capacityReached ev =
     (case capacity ev of
        None \<Rightarrow> False
      | Some c \<Rightarrow> c \<noteq> 0 \<and> totalRegistrations ev \<ge> c)"

definition confirmationJob :: "env \<Rightarrow> event \<Rightarrow> participant \<Rightarrow> email_job" where
  "confirmationJob en ev p =
     \<lparr> j_to = email p,
       j_subject = [CHR 0xE2, CHR 0x9C, CHR 0x85] @ '' Registration Confirmed - '' @ ev_name ev,
       j_html = registrationConfirmationTemplate en
                  \<lparr> t_name = firstName p @ '' '' @ lastName p,
                    t_eventName = ev_name ev,
                    t_eventDate = ev_date ev,
                    t_eventVenue = ev_venue ev,
                    t_ticketNumber = ticketNumber p \<rparr> \<rparr>"

definition registerParticipant :: "env \<Rightarrow> db \<Rightarrow> ident \<Rightarrow> body \<Rightarrow> db \<times> response" where
  "registerParticipant en d eid bd =
     (case Event_findByPk d eid of
        None \<Rightarrow> (d, Reply 404 (Error ''Event not found''))
      | Some ev \<Rightarrow>
          if ev_status ev \<noteq> ''published''
          then (d, Reply 400 (Error ''Event is not open for registration''))
          else if capacityReached ev
          then (d, Reply 400 (Error ''Event is at full capacity''))
          else (case Participant_findOne d eid (b_email bd) of
              Some existing \<Rightarrow> (d, Reply 400 (Error ''Already registered for this event''))
            | None \<Rightarrow>
                (case Participant_create en
                        (bd\<lparr> b_eventId := Some eid,
                             b_ticketNumber := Some (makeTicketNumber en),
                             b_status := Some (if requiresApproval ev then ''registered''
                                               else ''confirmed'') \<rparr>) d of
                   None \<Rightarrow> (d, Reply 500 (Error ''Failed to register participant''))
                 | Some (p, d1) \<Rightarrow>
                     (let d2 = Event_increment ev TotalRegistrations 1 d1
                      in if addEmailJob en (confirmationJob en ev p)
                         then (d2, Reply 201 (ParticipantMessage p ''Registration successful''))
                         else (d2, Reply 500 (Error ''Failed to register participant''))))))"

section \<open>Authorization\<close>

text \<open>
  The guard every organizer operation repeats:
  \<open>event.organizerId !== req.user.id && req.user.role !== 'admin'\<close>.
\<close>

definition accessDenied :: "event \<Rightarrow> user \<Rightarrow> bool" where
  "accessDenied ev u = (organizerId ev \<noteq> u_id u \<and> role u \<noteq> ''admin'')"

section \<open>Listing\<close>

definition matchesWhere :: "env \<Rightarrow> ident \<Rightarrow> query \<Rightarrow> participant \<Rightarrow> bool" where
  "matchesWhere en eid q p =
     (eventId p = eid
      \<and> (case q_status q of None \<Rightarrow> True | Some s \<Rightarrow> s = [] \<or> p_status p = s)
      \<and> (case q_checkedIn q of None \<Rightarrow> True | Some c \<Rightarrow> checkedIn p = (c = ''true''))
      \<and> (case q_search q of
            None \<Rightarrow> True
          | Some s \<Rightarrow> s = []
              \<or> iLike en (''%'' @ s @ ''%'') (firstName p)
              \<or> iLike en (''%'' @ s @ ''%'') (lastName p)
              \<or> iLike en (''%'' @ s @ ''%'') (email p)))"

definition newestFirst :: "participant list \<Rightarrow> participant list" where
  "newestFirst ps = sort_key (\<lambda>p. - int (registrationDate p)) ps"

text \<open>
  \<open>Math.ceil(count / limit)\<close>; for a limit of 0 the quotient is not a finite number and
  the response carries no page count.
\<close>

definition totalPages :: "nat \<Rightarrow> int \<Rightarrow> int option" where
  "totalPages n limit = (if limit = 0 then None else Some (- ((- int n) div limit)))"

text \<open>
  The store refuses (throws on) a negative limit or offset; the handler's outer catch
  turns that into the generic failure.
\<close>

definition getEventParticipants :: "env \<Rightarrow> db \<Rightarrow> user \<Rightarrow> ident \<Rightarrow> query \<Rightarrow> db \<times> response" where
  "getEventParticipants en d u eid q =
     (let page = orElse (q_page q) 1;
          limit = orElse (q_limit q) 50;
          offset = (page - 1) * limit
      in case Event_findByPk d eid of
           None \<Rightarrow> (d, Reply 404 (Error ''Event not found''))
         | Some ev \<Rightarrow>
             if accessDenied ev u then (d, Reply 403 (Error ''Access denied''))
             else if limit < 0 \<or> offset < 0
             then (d, Reply 500 (Error ''Failed to fetch participants''))
             else (let rows = filter (matchesWhere en eid q) (participants d)
                   in (d, Reply 200 (ParticipantPage
                            (take (nat limit) (drop (nat offset) (newestFirst rows)))
                            (length rows) page (totalPages (length rows) limit)))))"

section \<open>Get by id, update, delete\<close>

text \<open>
  In the four handlers below the event is read with \<open>findByPk\<close> and dereferenced without
  a null test: when no event row has the participant's \<open>eventId\<close>, reading
  \<open>event.organizerId\<close> throws and the outer catch answers 500.
\<close>

definition getParticipantById :: "db \<Rightarrow> user \<Rightarrow> ident \<Rightarrow> db \<times> response" where
  "getParticipantById d u i =
     (case Participant_findByPk d i of
        None \<Rightarrow> (d, Reply 404 (Error ''Participant not found''))
      | Some p \<Rightarrow>
          (case Event_findByPk d (eventId p) of
             None \<Rightarrow> (d, Reply 500 (Error ''Failed to fetch participant''))
           | Some ev \<Rightarrow>
               if accessDenied ev u then (d, Reply 403 (Error ''Access denied''))
               else (d, Reply 200 (ParticipantDetail p
                                     (ev_id ev, ev_name ev, ev_date ev, ev_venue ev)))))"

definition updateParticipant :: "db \<Rightarrow> user \<Rightarrow> ident \<Rightarrow> attrs \<Rightarrow> db \<times> response" where
  "updateParticipant d u i a =
     (case Participant_findByPk d i of
        None \<Rightarrow> (d, Reply 404 (Error ''Participant not found''))
      | Some p \<Rightarrow>
          (case Event_findByPk d (eventId p) of
             None \<Rightarrow> (d, Reply 500 (Error ''Failed to update participant''))
           | Some ev \<Rightarrow>
               if accessDenied ev u then (d, Reply 403 (Error ''Access denied''))
               else (case Participant_update p a d of
                       (p', d1) \<Rightarrow> (d1, Reply 200 (ParticipantOnly p')))))"

definition deleteParticipant :: "db \<Rightarrow> user \<Rightarrow> ident \<Rightarrow> db \<times> response" where
  "deleteParticipant d u i =
     (case Participant_findByPk d i of
        None \<Rightarrow> (d, Reply 404 (Error ''Participant not found''))
      | Some p \<Rightarrow>
          (case Event_findByPk d (eventId p) of
             None \<Rightarrow> (d, Reply 500 (Error ''Failed to delete participant''))
           | Some ev \<Rightarrow>
               if accessDenied ev u then (d, Reply 403 (Error ''Access denied''))
               else (let d1 = Participant_destroy p d;
                         d2 = Event_decrement ev TotalRegistrations 1 d1
                     in (d2, Reply 200 (Message ''Participant deleted successfully'')))))"

section \<open>Check-in\<close>

text \<open>
  The values both check-in handlers write:
  \<open>{ checkedIn: true, checkInTime: new Date(), checkInMethod, status: 'attended' }\<close>.
  The clock is read once per request.
\<close>

definition checkInValues :: "env \<Rightarrow> string \<Rightarrow> attrs" where
  "checkInValues en m =
     \<lparr> a_eventId = None, a_firstName = None, a_lastName = None, a_email = None,
       a_ticketNumber = None, a_status = Some ''attended'', a_checkedIn = Some True,
       a_checkInTime = Some (Some (now en)), a_checkInMethod = Some m,
       a_registrationDate = None \<rparr>"

definition checkInParticipant :: "env \<Rightarrow> db \<Rightarrow> user \<Rightarrow> ident \<Rightarrow> string option \<Rightarrow> db \<times> response" where
  "checkInParticipant en d u i m =
     (let checkInMethod = orElse m ''manual''
      in case Participant_findByPk d i of
           None \<Rightarrow> (d, Reply 404 (Error ''Participant not found''))
         | Some p \<Rightarrow>
             (case Event_findByPk d (eventId p) of
                None \<Rightarrow> (d, Reply 500 (Error ''Failed to check in participant''))
              | Some ev \<Rightarrow>
                  if accessDenied ev u then (d, Reply 403 (Error ''Access denied''))
                  else if checkedIn p
                  then (d, Reply 400 (Error ''Participant already checked in''))
                  else (case Participant_update p (checkInValues en checkInMethod) d of
                          (p', d1) \<Rightarrow>
                            (Event_increment ev TotalAttendees 1 d1,
                             Reply 200 (ParticipantMessage p' ''Check-in successful'')))))"

text \<open>The decimal numeral JavaScript prints for a length.\<close>

fun string_of_nat :: "nat \<Rightarrow> string" where
  "string_of_nat n =
     (if n < 10 then [''0123456789'' ! n]
      else string_of_nat (n div 10) @ [''0123456789'' ! (n mod 10)])"

text \<open>
  The loop of the bulk handler over the fetched instances: an instance that is not
  checked in is updated and pushed on \<open>updated\<close>, the others are passed over.
\<close>

fun checkInEach :: "env \<Rightarrow> string \<Rightarrow> participant list \<Rightarrow> participant list \<times> db
                      \<Rightarrow> participant list \<times> db" where
  "checkInEach en m [] acc = acc"
| "checkInEach en m (p # ps) (updated, d) =
     (if \<not> checkedIn p
      then (case Participant_update p (checkInValues en m) d of
              (p', d1) \<Rightarrow> checkInEach en m ps (updated @ [p'], d1))
      else checkInEach en m ps (updated, d))"

text \<open>
  \<open>participantIds\<close> is \<open>None\<close> when the body has no such entry or the entry is not an
  array.
\<close>

definition bulkCheckIn :: "env \<Rightarrow> db \<Rightarrow> user \<Rightarrow> ident list option \<Rightarrow> string option \<Rightarrow> db \<times> response" where
  "bulkCheckIn en d u ids m =
     (let checkInMethod = orElse m ''manual''
      in case ids of
           None \<Rightarrow> (d, Reply 400 (Error ''participantIds must be an array''))
         | Some participantIds \<Rightarrow>
             (case Participant_findAll d participantIds of
                [] \<Rightarrow> (d, Reply 404 (Error ''No participants found''))
              | p0 # rest \<Rightarrow>
                  (case Event_findByPk d (eventId p0) of
                     None \<Rightarrow> (d, Reply 500 (Error ''Failed to bulk check in''))
                   | Some ev \<Rightarrow>
                       if accessDenied ev u then (d, Reply 403 (Error ''Access denied''))
                       else (case checkInEach en checkInMethod (p0 # rest) ([], d) of
                               (updated, d1) \<Rightarrow>
                                 (Event_increment ev TotalAttendees (int (length updated)) d1,
                                  Reply 200 (BulkResult
                                    (string_of_nat (length updated) @ '' participants checked in'')
                                    updated))))))"

section \<open>The row a registration writes\<close>

text \<open>
  The values object handed to \<open>Participant.create\<close> is the body with \<open>eventId\<close>,
  \<open>ticketNumber\<close> and \<open>status\<close> written over it. \<open>newParticipant\<close> names the row that
  comes out; lemma \<open>create_spread\<close> below derives it from \<open>Participant_create\<close>.
\<close>

definition newParticipant :: "env \<Rightarrow> ident \<Rightarrow> event \<Rightarrow> body \<Rightarrow> participant" where
  "newParticipant en eid ev bd =
     \<lparr> p_id = newId en, eventId = eid,
       firstName = b_firstName bd, lastName = b_lastName bd, email = b_email bd,
       ticketNumber = makeTicketNumber en,
       p_status = (if requiresApproval ev then ''registered'' else ''confirmed''),
       checkedIn = orElse (b_checkedIn bd) False,
       checkInTime = orElse (b_checkInTime bd) None,
       checkInMethod = orElse (b_checkInMethod bd) ''manual'',
       registrationDate = orElse (b_registrationDate bd) (now en) \<rparr>"

section \<open>A concrete store\<close>

definition env0 :: env where
  "env0 = \<lparr> randomBytes = (\<lambda>n. take n [0x3f, 0xa0, 0x1c, 0xbe, 0x55]),
            newId = 7, now = 1000,
            registrationConfirmationTemplate = (\<lambda>a. t_name a @ '': '' @ t_ticketNumber a),
            addEmailJob = (\<lambda>j. True),
            iLike = (\<lambda>pat s. True) \<rparr>"

definition env_down :: env where
  "env_down = env0\<lparr> addEmailJob := (\<lambda>j. False) \<rparr>"

definition ev_gala :: event where
  "ev_gala = \<lparr> ev_id = 1, ev_name = ''Gala'', ev_date = 500, ev_venue = ''Hall'',
               ev_status = ''published'', capacity = Some 3, totalRegistrations = 2,
               totalAttendees = 1, organizerId = 10, requiresApproval = False \<rparr>"

definition ev_draft :: event where
  "ev_draft = \<lparr> ev_id = 2, ev_name = ''Workshop'', ev_date = 600, ev_venue = ''Lab'',
                ev_status = ''draft'', capacity = Some 5, totalRegistrations = 5,
                totalAttendees = 0, organizerId = 10, requiresApproval = False \<rparr>"

definition ev_zero :: event where
  "ev_zero = \<lparr> ev_id = 3, ev_name = ''Meetup'', ev_date = 700, ev_venue = ''Cafe'',
               ev_status = ''published'', capacity = Some 0, totalRegistrations = 0,
               totalAttendees = 0, organizerId = 10, requiresApproval = False \<rparr>"

definition ev_full :: event where
  "ev_full = \<lparr> ev_id = 4, ev_name = ''Dinner'', ev_date = 800, ev_venue = ''Club'',
               ev_status = ''published'', capacity = Some 1, totalRegistrations = 1,
               totalAttendees = 0, organizerId = 12, requiresApproval = True \<rparr>"

definition ev_zero_taken :: event where
  "ev_zero_taken = \<lparr> ev_id = 5, ev_name = ''Picnic'', ev_date = 900, ev_venue = ''Park'',
               ev_status = ''published'', capacity = Some 0, totalRegistrations = 1,
               totalAttendees = 0, organizerId = 10, requiresApproval = False \<rparr>"

definition ev_vip :: event where
  "ev_vip = \<lparr> ev_id = 6, ev_name = ''Summit'', ev_date = 950, ev_venue = ''Tower'',
               ev_status = ''published'', capacity = None, totalRegistrations = 0,
               totalAttendees = 0, organizerId = 10, requiresApproval = True \<rparr>"

definition p_ada :: participant where
  "p_ada = \<lparr> p_id = 1, eventId = 1, firstName = ''Ada'', lastName = ''Byron'',
             email = ''a@x.com'', ticketNumber = ''TKT-0000000A'', p_status = ''confirmed'',
             checkedIn = False, checkInTime = None, checkInMethod = ''manual'',
             registrationDate = 100 \<rparr>"

definition p_bob :: participant where
  "p_bob = \<lparr> p_id = 2, eventId = 1, firstName = ''Bob'', lastName = ''Stone'',
             email = ''b@x.com'', ticketNumber = ''TKT-0000000B'', p_status = ''attended'',
             checkedIn = True, checkInTime = Some 450, checkInMethod = ''qr'',
             registrationDate = 110 \<rparr>"

definition p_lost :: participant where
  "p_lost = \<lparr> p_id = 3, eventId = 99, firstName = ''Cy'', lastName = ''Lost'',
              email = ''c@x.com'', ticketNumber = ''TKT-0000000C'', p_status = ''confirmed'',
              checkedIn = False, checkInTime = None, checkInMethod = ''manual'',
              registrationDate = 120 \<rparr>"

definition p_dee :: participant where
  "p_dee = \<lparr> p_id = 4, eventId = 5, firstName = ''Dee'', lastName = ''Park'',
             email = ''d@x.com'', ticketNumber = ''TKT-0000000D'', p_status = ''confirmed'',
             checkedIn = False, checkInTime = None, checkInMethod = ''manual'',
             registrationDate = 130 \<rparr>"

definition p_eve :: participant where
  "p_eve = \<lparr> p_id = 5, eventId = 4, firstName = ''Eve'', lastName = ''Moss'',
             email = ''e@x.com'', ticketNumber = ''TKT-0000000E'', p_status = ''registered'',
             checkedIn = False, checkInTime = None, checkInMethod = ''manual'',
             registrationDate = 140 \<rparr>"

definition db0 :: db where
  "db0 = \<lparr> events = [ev_gala, ev_draft, ev_zero, ev_full, ev_zero_taken, ev_vip],
           participants = [p_ada, p_bob, p_lost, p_dee, p_eve] \<rparr>"

definition body_new :: body where
  "body_new = \<lparr> b_firstName = ''Nia'', b_lastName = ''West'', b_email = ''n@x.com'',
                b_eventId = None, b_ticketNumber = None, b_status = None,
                b_checkedIn = None, b_checkInTime = None, b_checkInMethod = None,
                b_registrationDate = None \<rparr>"

definition body_dee :: body where
  "body_dee = body_new\<lparr> b_firstName := ''Dee'', b_lastName := ''Park'', b_email := ''d@x.com'' \<rparr>"

definition p_nia :: "ident \<Rightarrow> string \<Rightarrow> participant" where
  "p_nia e s = \<lparr> p_id = 7, eventId = e, firstName = ''Nia'', lastName = ''West'',
             email = ''n@x.com'', ticketNumber = ''TKT-3FA01CBE'', p_status = s,
             checkedIn = False, checkInTime = None, checkInMethod = ''manual'',
             registrationDate = 1000 \<rparr>"

definition organizer :: user where
  "organizer = \<lparr> u_id = 10, role = ''organizer'' \<rparr>"

definition stranger :: user where
  "stranger = \<lparr> u_id = 11, role = ''organizer'' \<rparr>"

definition admin :: user where
  "admin = \<lparr> u_id = 11, role = ''admin'' \<rparr>"

lemmas example_rows =
  ev_gala_def ev_draft_def ev_zero_def ev_full_def ev_zero_taken_def
  ev_vip_def p_ada_def p_bob_def p_lost_def p_dee_def p_eve_def db0_def body_new_def
  body_dee_def p_nia_def organizer_def stranger_def admin_def

lemmas store_defs =
  Event_findByPk_def Participant_findByPk_def Participant_findOne_def Participant_findAll_def
  bump_def Event_increment_def Event_decrement_def Participant_build_def
  Participant_create_def orElse_def applyAttrs_def Participant_update_def
  Participant_destroy_def

lemmas ticket_defs =
  hexDigit_def toString_hex_def upperChar_def toUpperCase_def makeTicketNumber_def
  isUpperHex_def matchesTicketPattern_def

section \<open>Lemmas on the store and the ticket generator\<close>

lemma hexDigit_mem: "hexDigit n \<in> set ''0123456789abcdef''"
proof -
  have "n mod 16 < length ''0123456789abcdef''" by simp
  then show ?thesis unfolding hexDigit_def by (rule nth_mem)
qed

lemma all_hex_upper: "list_all (\<lambda>c. isUpperHex (upperChar c)) ''0123456789abcdef''"
  by (simp add: isUpperHex_def upperChar_def)

lemma upper_hex: "isUpperHex (upperChar (hexDigit n))"
  using all_hex_upper hexDigit_mem [of n] unfolding list_all_iff by blast

lemma toString_hex_length: "length (toString_hex bs) = 2 * length bs"
  by (induction bs) (simp_all add: toString_hex_def)

lemma toUpperCase_length: "length (toUpperCase s) = length s"
  by (simp add: toUpperCase_def)

lemma toString_hex_upper: "list_all isUpperHex (toUpperCase (toString_hex bs))"
  by (induction bs) (simp_all add: toString_hex_def toUpperCase_def upper_hex)

lemma ticket_matches:
  "length (randomBytes en 4) = 4 \<Longrightarrow> matchesTicketPattern (makeTicketNumber en)"
  by (simp add: matchesTicketPattern_def makeTicketNumber_def toString_hex_upper
      toString_hex_length toUpperCase_length)

lemma env0_ticket: "makeTicketNumber env0 = ''TKT-3FA01CBE''"
  by (simp add: ticket_defs env0_def)

lemma env_down_ticket: "makeTicketNumber env_down = ''TKT-3FA01CBE''"
  by (simp add: ticket_defs env0_def env_down_def)

lemma create_spread:
  "Participant_create en
     (bd\<lparr> b_eventId := Some eid, b_ticketNumber := Some (makeTicketNumber en),
          b_status := Some (if requiresApproval ev then ''registered'' else ''confirmed'') \<rparr>) d
   = Some (newParticipant en eid ev bd,
           d\<lparr>participants := participants d @ [newParticipant en eid ev bd]\<rparr>)"
  by (simp add: Participant_create_def Participant_build_def newParticipant_def orElse_def
      split: option.splits)

lemma find_pk: "find (\<lambda>e. ev_id e = k) es = Some ev \<Longrightarrow> ev_id ev = k"
  by (auto simp: find_Some_iff)

lemma find_bumped:
  "find (\<lambda>e. ev_id e = k) es = Some ev \<Longrightarrow>
   find (\<lambda>e. ev_id e = k) (map (\<lambda>e. if ev_id e = k then bump c n e else e) es)
     = Some (bump c n ev)"
  by (induction es) (auto simp: bump_def split: counter.splits)

lemma find_bumped_other:
  "j \<noteq> k \<Longrightarrow>
   find (\<lambda>e. ev_id e = j) (map (\<lambda>e. if ev_id e = k then bump c n e else e) es)
     = find (\<lambda>e. ev_id e = j) es"
  by (induction es) (auto simp: bump_def split: counter.splits)

lemma register_passes:
  assumes "Event_findByPk d eid = Some ev" and "ev_status ev = ''published''"
    and "\<not> capacityReached ev" and "Participant_findOne d eid (b_email bd) = None"
  shows "registerParticipant en d eid bd =
     (Event_increment ev TotalRegistrations 1
        (d\<lparr>participants := participants d @ [newParticipant en eid ev bd]\<rparr>),
      if addEmailJob en (confirmationJob en ev (newParticipant en eid ev bd))
      then Reply 201 (ParticipantMessage (newParticipant en eid ev bd) ''Registration successful'')
      else Reply 500 (Error ''Failed to register participant''))"
  using assms by (simp add: registerParticipant_def create_spread Let_def)

lemma register_created:
  assumes "registerParticipant en d eid bd = (d', Reply 201 pl)"
  shows "\<exists>ev. Event_findByPk d eid = Some ev \<and> ev_status ev = ''published''
     \<and> \<not> capacityReached ev \<and> Participant_findOne d eid (b_email bd) = None
     \<and> addEmailJob en (confirmationJob en ev (newParticipant en eid ev bd))"
  using assms
  by (auto simp: registerParticipant_def create_spread Let_def split: option.splits if_splits)


text \<open>
  C1 (amended). A registration attempt on a published event whose capacity is set and
  is not 0, and whose totalRegistrations equals that capacity, answers 400 with
  "Event is at full capacity" (CapacityExceeded). The store comes back as it was: the
  counter totalRegistrations is unchanged and no Participant row is created.
\<close>

theorem register_at_capacity:
  assumes "Event_findByPk d eid = Some ev" and "ev_status ev = ''published''"
    and "capacity ev = Some c" and "c \<noteq> 0" and "totalRegistrations ev = c"
  shows "registerParticipant en d eid bd = (d, Reply 400 (Error ''Event is at full capacity''))"
  using assms by (simp add: registerParticipant_def capacityReached_def)

text \<open>
  C1, witness: the event with id 4 of the concrete store is published, has capacity 1
  and one registration.
\<close>

theorem register_at_capacity_witness:
  "Event_findByPk db0 4 = Some ev_full \<and> ev_status ev_full = ''published''
   \<and> capacity ev_full = Some 1 \<and> (1::int) \<noteq> 0 \<and> totalRegistrations ev_full = 1
   \<and> registerParticipant env0 db0 4 body_new
        = (db0, Reply 400 (Error ''Event is at full capacity''))"
proof -
  have h1: "Event_findByPk db0 4 = Some ev_full"
    by (simp add: Event_findByPk_def example_rows)
  have h2: "ev_status ev_full = ''published''" by (simp add: ev_full_def)
  have h3: "capacity ev_full = Some 1" by (simp add: ev_full_def)
  have h4: "(1::int) \<noteq> 0" by simp
  have h5: "totalRegistrations ev_full = 1" by (simp add: ev_full_def)
  from register_at_capacity [OF h1 h2 h3 h4 h5] h1 h2 h3 h5 show ?thesis by simp
qed

section \<open>Registration: the claims\<close>

lemma env0_fields:
  "newId env0 = 7" "now env0 = 1000" "addEmailJob env0 j" "iLike env0 pat str"
  "newId env_down = 7" "now env_down = 1000" "\<not> addEmailJob env_down j"
  by (simp_all add: env0_def env_down_def)


text \<open>
  C1 as stated fails at two inputs. The event with id 2 has capacity 5 and five
  registrations, but it is a draft: the attempt answers "Event is not open for
  registration", the failure of the earlier status test. The event with id 3 is published
  with capacity 0 and no registration: the capacity test passes over a capacity of 0, the
  attempt answers 201, a row is created and the counter becomes 1.
\<close>

theorem register_at_capacity_counterexample:
  "Event_findByPk db0 2 = Some ev_draft \<and> capacity ev_draft = Some 5
   \<and> totalRegistrations ev_draft = 5
   \<and> registerParticipant env0 db0 2 body_new
        = (db0, Reply 400 (Error ''Event is not open for registration''))
   \<and> Event_findByPk db0 3 = Some ev_zero \<and> capacity ev_zero = Some 0
   \<and> totalRegistrations ev_zero = 0
   \<and> snd (registerParticipant env0 db0 3 body_new)
        = Reply 201 (ParticipantMessage (p_nia 3 ''confirmed'') ''Registration successful'')
   \<and> participants (fst (registerParticipant env0 db0 3 body_new))
        = participants db0 @ [p_nia 3 ''confirmed'']
   \<and> Event_findByPk (fst (registerParticipant env0 db0 3 body_new)) 3
        = Some (ev_zero\<lparr>totalRegistrations := 1\<rparr>)"
  by (simp add: registerParticipant_def capacityReached_def store_defs
      example_rows env0_ticket env0_fields)

text \<open>
  C2 (amended). The preconditions of registration are tested in order and the first
  that fails decides the answer, whatever the later ones would say: (1) no event: 404
  "Event not found" (NotFound); (2) status other than "published": 400 "Event is not open
  for registration" (InvalidState); (3) capacity set and not 0, and totalRegistrations
  not below it: 400 "Event is at full capacity" (CapacityExceeded); (4) the first three
  pass and a Participant row with the same eventId and email exists: 400 "Already
  registered for this event" (Conflict). The four answers are pairwise distinct and each
  leaves the store as it was.
\<close>

theorem register_precondition_order:
  "(Event_findByPk d eid = None \<longrightarrow>
      registerParticipant en d eid bd = (d, Reply 404 (Error ''Event not found'')))
   \<and> (Event_findByPk d eid = Some ev \<and> ev_status ev \<noteq> ''published'' \<longrightarrow>
      registerParticipant en d eid bd
        = (d, Reply 400 (Error ''Event is not open for registration'')))
   \<and> (Event_findByPk d eid = Some ev \<and> ev_status ev = ''published''
        \<and> capacity ev = Some c \<and> c \<noteq> 0 \<and> \<not> totalRegistrations ev < c \<longrightarrow>
      registerParticipant en d eid bd = (d, Reply 400 (Error ''Event is at full capacity'')))
   \<and> (Event_findByPk d eid = Some ev \<and> ev_status ev = ''published''
        \<and> (capacity ev = None
             \<or> (\<exists>k. capacity ev = Some k \<and> (k = 0 \<or> totalRegistrations ev < k)))
        \<and> (\<exists>x \<in> set (participants d). eventId x = eid \<and> email x = b_email bd) \<longrightarrow>
      registerParticipant en d eid bd
        = (d, Reply 400 (Error ''Already registered for this event'')))
   \<and> distinct [Reply 404 (Error ''Event not found''),
                Reply 400 (Error ''Event is not open for registration''),
                Reply 400 (Error ''Event is at full capacity''),
                Reply 400 (Error ''Already registered for this event'')]"
proof (intro conjI impI)
  assume "Event_findByPk d eid = None"
  then show "registerParticipant en d eid bd = (d, Reply 404 (Error ''Event not found''))"
    by (simp add: registerParticipant_def)
next
  assume "Event_findByPk d eid = Some ev \<and> ev_status ev \<noteq> ''published''"
  then show "registerParticipant en d eid bd
      = (d, Reply 400 (Error ''Event is not open for registration''))"
    by (simp add: registerParticipant_def)
next
  assume "Event_findByPk d eid = Some ev \<and> ev_status ev = ''published''
        \<and> capacity ev = Some c \<and> c \<noteq> 0 \<and> \<not> totalRegistrations ev < c"
  then show "registerParticipant en d eid bd = (d, Reply 400 (Error ''Event is at full capacity''))"
    by (simp add: registerParticipant_def capacityReached_def)
next
  assume a: "Event_findByPk d eid = Some ev \<and> ev_status ev = ''published''
        \<and> (capacity ev = None
             \<or> (\<exists>k. capacity ev = Some k \<and> (k = 0 \<or> totalRegistrations ev < k)))
        \<and> (\<exists>x \<in> set (participants d). eventId x = eid \<and> email x = b_email bd)"
  then have "Participant_findOne d eid (b_email bd) \<noteq> None"
    by (auto simp: Participant_findOne_def find_None_iff)
  then obtain x where x: "Participant_findOne d eid (b_email bd) = Some x" by blast
  from a have "\<not> capacityReached ev"
    by (auto simp: capacityReached_def)
  with a x show "registerParticipant en d eid bd
      = (d, Reply 400 (Error ''Already registered for this event''))"
    by (simp add: registerParticipant_def)
next
  show "distinct [Reply 404 (Error ''Event not found''),
                Reply 400 (Error ''Event is not open for registration''),
                Reply 400 (Error ''Event is at full capacity''),
                Reply 400 (Error ''Already registered for this event'')]"
    by simp
qed

text \<open>
  C2, witness: one request of the concrete store for each of the four failures, and a
  second one for the last failure on event 5, whose capacity is 0. The draft event 2 is
  also full, and the body's email is that of a registered participant in the last two
  cases only.
\<close>

theorem register_precondition_order_witness:
  "Event_findByPk db0 77 = None
   \<and> registerParticipant env0 db0 77 body_dee = (db0, Reply 404 (Error ''Event not found''))
   \<and> Event_findByPk db0 2 = Some ev_draft \<and> ev_status ev_draft \<noteq> ''published''
   \<and> registerParticipant env0 db0 2 body_dee
        = (db0, Reply 400 (Error ''Event is not open for registration''))
   \<and> Event_findByPk db0 4 = Some ev_full \<and> ev_status ev_full = ''published''
   \<and> capacity ev_full = Some 1 \<and> \<not> totalRegistrations ev_full < 1
   \<and> registerParticipant env0 db0 4 (body_dee\<lparr>b_email := ''e@x.com''\<rparr>)
        = (db0, Reply 400 (Error ''Event is at full capacity''))
   \<and> Event_findByPk db0 1 = Some ev_gala \<and> ev_status ev_gala = ''published''
   \<and> capacity ev_gala = Some 3 \<and> totalRegistrations ev_gala < 3
   \<and> p_ada \<in> set (participants db0) \<and> eventId p_ada = 1 \<and> email p_ada = ''a@x.com''
   \<and> registerParticipant env0 db0 1 (body_dee\<lparr>b_email := ''a@x.com''\<rparr>)
        = (db0, Reply 400 (Error ''Already registered for this event''))
   \<and> Event_findByPk db0 5 = Some ev_zero_taken \<and> ev_status ev_zero_taken = ''published''
   \<and> capacity ev_zero_taken = Some 0
   \<and> p_dee \<in> set (participants db0) \<and> eventId p_dee = 5 \<and> email p_dee = b_email body_dee
   \<and> registerParticipant env0 db0 5 body_dee
        = (db0, Reply 400 (Error ''Already registered for this event''))"
proof -
  have e0: "Event_findByPk db0 77 = None"
    and e2: "Event_findByPk db0 2 = Some ev_draft"
    and e4: "Event_findByPk db0 4 = Some ev_full"
    and e1: "Event_findByPk db0 1 = Some ev_gala"
    and e5: "Event_findByPk db0 5 = Some ev_zero_taken"
    by (simp_all add: Event_findByPk_def example_rows)
  have s5: "ev_status ev_zero_taken = ''published''" "capacity ev_zero_taken = Some 0"
    by (simp_all add: example_rows)
  have m5: "p_dee \<in> set (participants db0)" "eventId p_dee = 5"
    "email p_dee = b_email body_dee"
    by (simp_all add: example_rows)
  note t5 = register_precondition_order [of db0 5 env0 body_dee ev_zero_taken]
  have "\<exists>x \<in> set (participants db0). eventId x = 5 \<and> email x = b_email body_dee"
    using m5 by metis
  with t5 e5 s5 have r5: "registerParticipant env0 db0 5 body_dee
      = (db0, Reply 400 (Error ''Already registered for this event''))" by blast
  have s2: "ev_status ev_draft \<noteq> ''published''"
    and s4: "ev_status ev_full = ''published''" "capacity ev_full = Some 1"
            "\<not> totalRegistrations ev_full < 1"
    and s1: "ev_status ev_gala = ''published''" "capacity ev_gala = Some 3"
            "totalRegistrations ev_gala < 3"
    by (simp_all add: example_rows)
  have m: "p_ada \<in> set (participants db0)" "eventId p_ada = 1" "email p_ada = ''a@x.com''"
    by (simp_all add: example_rows)
  have b: "b_email (body_dee\<lparr>b_email := ''a@x.com''\<rparr>) = ''a@x.com''" by simp
  note t1 = register_precondition_order [of db0 77 env0 body_dee]
  note t2 = register_precondition_order [of db0 2 env0 body_dee ev_draft]
  note t3 = register_precondition_order
              [of db0 4 env0 "body_dee\<lparr>b_email := ''e@x.com''\<rparr>" ev_full 1]
  note t4 = register_precondition_order
              [of db0 1 env0 "body_dee\<lparr>b_email := ''a@x.com''\<rparr>" ev_gala]
  from t1 e0 have r1: "registerParticipant env0 db0 77 body_dee
      = (db0, Reply 404 (Error ''Event not found''))" by blast
  from t2 e2 s2 have r2: "registerParticipant env0 db0 2 body_dee
      = (db0, Reply 400 (Error ''Event is not open for registration''))" by blast
  from t3 e4 s4 have r3: "registerParticipant env0 db0 4 (body_dee\<lparr>b_email := ''e@x.com''\<rparr>)
      = (db0, Reply 400 (Error ''Event is at full capacity''))" by simp
  have "\<exists>x \<in> set (participants db0). eventId x = 1
          \<and> email x = b_email (body_dee\<lparr>b_email := ''a@x.com''\<rparr>)"
    using m b by metis
  with t4 e1 s1 have r4: "registerParticipant env0 db0 1 (body_dee\<lparr>b_email := ''a@x.com''\<rparr>)
      = (db0, Reply 400 (Error ''Already registered for this event''))" by blast
  from e0 e2 e4 e1 e5 s2 s4 s1 s5 m m5 r1 r2 r3 r4 r5 show ?thesis by simp
qed

text \<open>
  C2 as stated fails for a capacity of 0: the published event 5 has capacity 0 and
  one registration, so precondition (3) as stated (totalRegistrations below capacity) is
  violated, and the body's email is already registered there, which violates (4). The
  earliest failure in the stated order would be CapacityExceeded; the handler answers
  the Conflict "Already registered for this event".
\<close>

theorem register_precondition_order_counterexample:
  "Event_findByPk db0 5 = Some ev_zero_taken \<and> ev_status ev_zero_taken = ''published''
   \<and> capacity ev_zero_taken = Some 0 \<and> \<not> totalRegistrations ev_zero_taken < 0
   \<and> registerParticipant env0 db0 5 body_dee
        = (db0, Reply 400 (Error ''Already registered for this event''))
   \<and> registerParticipant env0 db0 5 body_dee
        \<noteq> (db0, Reply 400 (Error ''Event is at full capacity''))"
  by (simp add: registerParticipant_def capacityReached_def store_defs example_rows)

lemma Event_findByPk_bumped:
  assumes "Event_findByPk d k = Some ev"
  shows "Event_findByPk (Event_increment ev c n (d\<lparr>participants := ps\<rparr>)) k = Some (bump c n ev)"
  using assms find_pk [of k "events d" ev]
  by (simp add: Event_findByPk_def Event_increment_def find_bumped)

text \<open>
  C4. When a registration succeeds (201), the participant in the response is the row
  appended to the Participant table; its status is "registered" when the event's
  requiresApproval flag is true and "confirmed" otherwise, and its ticketNumber is
  \<open>TKT-\<close> followed by exactly 8 characters among \<open>0-9A-F\<close>. The random source is
  assumed to return as many bytes as it is asked for.
\<close>

theorem registration_status_and_ticket:
  assumes "registerParticipant en d eid bd = (d', Reply 201 pl)"
    and "Event_findByPk d eid = Some ev"
    and "length (randomBytes en 4) = 4"
  shows "\<exists>p. pl = ParticipantMessage p ''Registration successful''
     \<and> participants d' = participants d @ [p]
     \<and> p_status p = (if requiresApproval ev then ''registered'' else ''confirmed'')
     \<and> matchesTicketPattern (ticketNumber p)"
proof -
  from register_created [OF assms(1)] assms(2)
  have pre: "ev_status ev = ''published''" "\<not> capacityReached ev"
    "Participant_findOne d eid (b_email bd) = None"
    "addEmailJob en (confirmationJob en ev (newParticipant en eid ev bd))"
    by auto
  let ?p = "newParticipant en eid ev bd"
  from register_passes [OF assms(2) pre(1,2,3), of en] pre(4) assms(1)
  have "d' = Event_increment ev TotalRegistrations 1 (d\<lparr>participants := participants d @ [?p]\<rparr>)"
    and "pl = ParticipantMessage ?p ''Registration successful''"
    by simp_all
  moreover have "ticketNumber ?p = makeTicketNumber en"
    and "p_status ?p = (if requiresApproval ev then ''registered'' else ''confirmed'')"
    by (simp_all add: newParticipant_def)
  ultimately show ?thesis
    using ticket_matches [OF assms(3)] by (simp add: Event_increment_def)
qed

lemma db0_register_gala:
  "registerParticipant env0 db0 1 body_new
     = (Event_increment ev_gala TotalRegistrations 1
          (db0\<lparr>participants := participants db0 @ [p_nia 1 ''confirmed'']\<rparr>),
        Reply 201 (ParticipantMessage (p_nia 1 ''confirmed'') ''Registration successful''))"
  by (simp add: registerParticipant_def capacityReached_def store_defs
      example_rows env0_ticket env0_fields)

lemma db0_register_vip:
  "registerParticipant env0 db0 6 body_new
     = (Event_increment ev_vip TotalRegistrations 1
          (db0\<lparr>participants := participants db0 @ [p_nia 6 ''registered'']\<rparr>),
        Reply 201 (ParticipantMessage (p_nia 6 ''registered'') ''Registration successful''))"
  by (simp add: registerParticipant_def capacityReached_def store_defs
      example_rows env0_ticket env0_fields)

text \<open>
  C4, witness: a registration on event 6 (approval required) and one on event 1
  (no approval) of the concrete store.
\<close>

theorem registration_status_and_ticket_witness:
  "registerParticipant env0 db0 6 body_new
     = (Event_increment ev_vip TotalRegistrations 1
          (db0\<lparr>participants := participants db0 @ [p_nia 6 ''registered'']\<rparr>),
        Reply 201 (ParticipantMessage (p_nia 6 ''registered'') ''Registration successful''))
   \<and> Event_findByPk db0 6 = Some ev_vip \<and> requiresApproval ev_vip
   \<and> registerParticipant env0 db0 1 body_new
     = (Event_increment ev_gala TotalRegistrations 1
          (db0\<lparr>participants := participants db0 @ [p_nia 1 ''confirmed'']\<rparr>),
        Reply 201 (ParticipantMessage (p_nia 1 ''confirmed'') ''Registration successful''))
   \<and> Event_findByPk db0 1 = Some ev_gala \<and> \<not> requiresApproval ev_gala
   \<and> length (randomBytes env0 4) = 4
   \<and> p_status (p_nia 6 ''registered'') = ''registered''
   \<and> matchesTicketPattern (ticketNumber (p_nia 6 ''registered''))
   \<and> p_status (p_nia 1 ''confirmed'') = ''confirmed''
   \<and> matchesTicketPattern (ticketNumber (p_nia 1 ''confirmed''))"
proof -
  have rb: "length (randomBytes env0 4) = 4" by (simp add: env0_def)
  have e6: "Event_findByPk db0 6 = Some ev_vip" and e1: "Event_findByPk db0 1 = Some ev_gala"
    by (simp_all add: Event_findByPk_def example_rows)
  have a: "requiresApproval ev_vip" "\<not> requiresApproval ev_gala"
    by (simp_all add: example_rows)
  from registration_status_and_ticket [OF db0_register_vip e6 rb] a
  have v: "p_status (p_nia 6 ''registered'') = ''registered''
        \<and> matchesTicketPattern (ticketNumber (p_nia 6 ''registered''))"
    by auto
  from registration_status_and_ticket [OF db0_register_gala e1 rb] a
  have g: "p_status (p_nia 1 ''confirmed'') = ''confirmed''
        \<and> matchesTicketPattern (ticketNumber (p_nia 1 ''confirmed''))"
    by auto
  from db0_register_vip db0_register_gala e6 e1 a rb v g show ?thesis by blast
qed

text \<open>
  C8. When the four preconditions pass and the enqueue call throws, nothing is rolled
  back: the new row is in the Participant table, the event's totalRegistrations is one
  higher, and the answer is the generic 500 "Failed to register participant" instead of
  the 201.
\<close>

theorem enqueue_failure_keeps_registration:
  assumes "Event_findByPk d eid = Some ev" and "ev_status ev = ''published''"
    and "\<not> capacityReached ev"
    and "Participant_findOne d eid (b_email bd) = None"
    and "\<not> addEmailJob en (confirmationJob en ev (newParticipant en eid ev bd))"
  shows "\<exists>d'. registerParticipant en d eid bd
            = (d', Reply 500 (Error ''Failed to register participant''))
     \<and> participants d' = participants d @ [newParticipant en eid ev bd]
     \<and> Event_findByPk d' eid
         = Some (ev\<lparr>totalRegistrations := totalRegistrations ev + 1\<rparr>)"
  using register_passes [OF assms(1-4), of en] assms(5)
    Event_findByPk_bumped [OF assms(1), of TotalRegistrations 1]
  by (simp add: bump_def) (simp add: Event_increment_def)

text \<open>
  C8, witness: a registration on event 1 with a queue that throws.
\<close>

theorem enqueue_failure_keeps_registration_witness:
  "Event_findByPk db0 1 = Some ev_gala \<and> ev_status ev_gala = ''published''
   \<and> \<not> capacityReached ev_gala
   \<and> Participant_findOne db0 1 (b_email body_new) = None
   \<and> \<not> addEmailJob env_down (confirmationJob env_down ev_gala (newParticipant env_down 1 ev_gala body_new))
   \<and> (\<exists>d'. registerParticipant env_down db0 1 body_new
            = (d', Reply 500 (Error ''Failed to register participant''))
        \<and> participants d' = participants db0 @ [p_nia 1 ''confirmed'']
        \<and> Event_findByPk d' 1 = Some (ev_gala\<lparr>totalRegistrations := 3\<rparr>))"
proof -
  have h1: "Event_findByPk db0 1 = Some ev_gala"
    by (simp add: Event_findByPk_def example_rows)
  have h2: "ev_status ev_gala = ''published''" by (simp add: example_rows)
  have h3: "\<not> capacityReached ev_gala" by (simp add: capacityReached_def example_rows)
  have h4: "Participant_findOne db0 1 (b_email body_new) = None"
    by (simp add: Participant_findOne_def example_rows)
  have h5: "\<not> addEmailJob env_down
      (confirmationJob env_down ev_gala (newParticipant env_down 1 ev_gala body_new))"
    by (simp add: env0_fields)
  have p: "newParticipant env_down 1 ev_gala body_new = p_nia 1 ''confirmed''"
    by (simp add: newParticipant_def env_down_ticket env0_fields orElse_def example_rows)
  have t: "totalRegistrations ev_gala + 1 = 3" by (simp add: example_rows)
  note r = enqueue_failure_keeps_registration [OF h1 h2 h3 h4 h5, unfolded p t]
  from r h1 h2 h3 h4 h5 show ?thesis by blast
qed

text \<open>
  C10. Two request bodies that differ only in their eventId, ticketNumber or status
  entries give the same outcome (same store, same response); and the participant of a
  successful registration has the path parameter as eventId, the generated ticket number
  and the status decided by requiresApproval.
\<close>

theorem server_fields_override_body:
  "registerParticipant en d eid (bd\<lparr>b_eventId := x, b_ticketNumber := y, b_status := z\<rparr>)
     = registerParticipant en d eid bd
   \<and> (registerParticipant en d eid bd = (d', Reply 201 (ParticipantMessage p msg))
        \<and> Event_findByPk d eid = Some ev \<longrightarrow>
      eventId p = eid \<and> ticketNumber p = makeTicketNumber en
        \<and> p_status p = (if requiresApproval ev then ''registered'' else ''confirmed''))"
proof (rule conjI)
  show "registerParticipant en d eid (bd\<lparr>b_eventId := x, b_ticketNumber := y, b_status := z\<rparr>)
     = registerParticipant en d eid bd"
    by (simp add: registerParticipant_def cong: option.case_cong if_cong)
next
  show "registerParticipant en d eid bd = (d', Reply 201 (ParticipantMessage p msg))
        \<and> Event_findByPk d eid = Some ev \<longrightarrow>
      eventId p = eid \<and> ticketNumber p = makeTicketNumber en
        \<and> p_status p = (if requiresApproval ev then ''registered'' else ''confirmed'')"
  proof
  assume a: "registerParticipant en d eid bd = (d', Reply 201 (ParticipantMessage p msg))
        \<and> Event_findByPk d eid = Some ev"
  from register_created [of en d eid bd d'] a
  have pre: "ev_status ev = ''published''" "\<not> capacityReached ev"
    "Participant_findOne d eid (b_email bd) = None"
    "addEmailJob en (confirmationJob en ev (newParticipant en eid ev bd))"
    by auto
  from a have e: "Event_findByPk d eid = Some ev" by simp
  from register_passes [OF e pre(1,2,3), of en] pre(4) a
  have "p = newParticipant en eid ev bd" by simp
  then show "eventId p = eid \<and> ticketNumber p = makeTicketNumber en
        \<and> p_status p = (if requiresApproval ev then ''registered'' else ''confirmed'')"
    by (simp add: newParticipant_def)
  qed
qed

text \<open>
  C10, witness: a body that carries its own eventId, ticketNumber and status, against
  the same body without them, on event 1 of the concrete store.
\<close>

theorem server_fields_override_body_witness:
  "registerParticipant env0 db0 1
       (body_new\<lparr>b_eventId := Some 6, b_ticketNumber := Some ''TKT-FFFFFFFF'',
                 b_status := Some ''attended''\<rparr>)
     = registerParticipant env0 db0 1 body_new
   \<and> registerParticipant env0 db0 1 body_new
       = (Event_increment ev_gala TotalRegistrations 1
            (db0\<lparr>participants := participants db0 @ [p_nia 1 ''confirmed'']\<rparr>),
          Reply 201 (ParticipantMessage (p_nia 1 ''confirmed'') ''Registration successful''))
   \<and> Event_findByPk db0 1 = Some ev_gala
   \<and> eventId (p_nia 1 ''confirmed'') = 1
   \<and> ticketNumber (p_nia 1 ''confirmed'') = makeTicketNumber env0
   \<and> p_status (p_nia 1 ''confirmed'') = ''confirmed''"
proof -
  have e1: "Event_findByPk db0 1 = Some ev_gala"
    by (simp add: Event_findByPk_def example_rows)
  have a: "\<not> requiresApproval ev_gala" by (simp add: example_rows)
  from server_fields_override_body [where en = env0 and d = db0 and eid = 1
      and bd = body_new and x = "Some 6" and y = "Some ''TKT-FFFFFFFF''"
      and z = "Some ''attended''" and p = "p_nia 1 ''confirmed''"
      and msg = "''Registration successful''" and ev = ev_gala
      and d' = "Event_increment ev_gala TotalRegistrations 1
            (db0\<lparr>participants := participants db0 @ [p_nia 1 ''confirmed'']\<rparr>)"]
    db0_register_gala e1 a
  show ?thesis by simp
qed

section \<open>Operations on one participant: the claims\<close>

lemma find_participant_pk: "find (\<lambda>r. p_id r = k) ps = Some p \<Longrightarrow> p_id p = k"
  by (auto simp: find_Some_iff)

lemma applyAttrs_pk [simp]: "p_id (applyAttrs a r) = p_id r"
  by (simp add: applyAttrs_def)

lemma find_updated:
  "find (\<lambda>r. p_id r = k) ps = Some p \<Longrightarrow>
   find (\<lambda>r. p_id r = k) (map (\<lambda>r. if p_id r = k then applyAttrs a r else r) ps)
     = Some (applyAttrs a p)"
  by (induction ps) auto

lemma find_destroyed:
  "find (\<lambda>r. p_id r = k) (filter (\<lambda>r. p_id r \<noteq> k) ps) = None"
  by (simp add: find_None_iff)

lemma Event_findByPk_bumped':
  assumes "Event_findByPk d k = Some ev" and "events d' = events d"
  shows "Event_findByPk (Event_increment ev c n d') k = Some (bump c n ev)"
  using assms find_pk [of k "events d" ev]
  by (simp add: Event_findByPk_def Event_increment_def find_bumped)

lemma Event_findByPk_bumped_other:
  assumes "Event_findByPk d k = Some ev" and "events d' = events d" and "j \<noteq> k"
  shows "Event_findByPk (Event_increment ev c n d') j = Event_findByPk d j"
  using assms find_pk [of k "events d" ev]
  by (simp add: Event_findByPk_def Event_increment_def find_bumped_other)

text \<open>
  C9. When the participant row exists and no Event row has its eventId, get-by-id,
  update, delete and single check-in do not answer NotFound: each answers the generic 500
  of its handler, and the store is left as it was.
\<close>

theorem orphan_participant_internal_error:
  assumes "Participant_findByPk d i = Some p" and "Event_findByPk d (eventId p) = None"
  shows "getParticipantById d u i = (d, Reply 500 (Error ''Failed to fetch participant''))
     \<and> updateParticipant d u i a = (d, Reply 500 (Error ''Failed to update participant''))
     \<and> deleteParticipant d u i = (d, Reply 500 (Error ''Failed to delete participant''))
     \<and> checkInParticipant en d u i m
          = (d, Reply 500 (Error ''Failed to check in participant''))"
  using assms
  by (simp add: getParticipantById_def updateParticipant_def deleteParticipant_def
      checkInParticipant_def)

text \<open>
  C9, witness: participant 3 of the concrete store belongs to event 99, which does
  not exist.
\<close>

theorem orphan_participant_internal_error_witness:
  "Participant_findByPk db0 3 = Some p_lost \<and> Event_findByPk db0 (eventId p_lost) = None
   \<and> getParticipantById db0 organizer 3
        = (db0, Reply 500 (Error ''Failed to fetch participant''))
   \<and> updateParticipant db0 admin 3 (checkInValues env0 ''qr'')
        = (db0, Reply 500 (Error ''Failed to update participant''))
   \<and> deleteParticipant db0 admin 3
        = (db0, Reply 500 (Error ''Failed to delete participant''))
   \<and> checkInParticipant env0 db0 organizer 3 None
        = (db0, Reply 500 (Error ''Failed to check in participant''))"
proof -
  have h1: "Participant_findByPk db0 3 = Some p_lost"
    by (simp add: Participant_findByPk_def example_rows)
  have h2: "Event_findByPk db0 (eventId p_lost) = None"
    by (simp add: Event_findByPk_def example_rows)
  from orphan_participant_internal_error [OF h1 h2, of organizer _ env0 None]
    orphan_participant_internal_error [OF h1 h2, of admin "checkInValues env0 ''qr''" env0 None]
    h1 h2
  show ?thesis by simp
qed

text \<open>
  C3. A caller who is neither the organizer of the event nor an admin gets 403
  "Access denied" from list, get-by-id, update, delete, single check-in and bulk
  check-in, and the store (every Participant row, every Event counter) is left as it
  was. The event is the one of the path for the listing, the participant's event for the
  operations by id, and the event of the first fetched participant for the bulk
  check-in.
\<close>

theorem forbidden_without_mutation:
  assumes "organizerId ev \<noteq> u_id u" and "role u \<noteq> ''admin''"
  shows "(Event_findByPk d eid = Some ev \<longrightarrow>
            getEventParticipants en d u eid q = (d, Reply 403 (Error ''Access denied'')))
     \<and> (Participant_findByPk d i = Some p \<and> Event_findByPk d (eventId p) = Some ev \<longrightarrow>
            getParticipantById d u i = (d, Reply 403 (Error ''Access denied''))
          \<and> updateParticipant d u i a = (d, Reply 403 (Error ''Access denied''))
          \<and> deleteParticipant d u i = (d, Reply 403 (Error ''Access denied''))
          \<and> checkInParticipant en d u i m = (d, Reply 403 (Error ''Access denied'')))
     \<and> (Participant_findAll d ids = p0 # rest \<and> Event_findByPk d (eventId p0) = Some ev \<longrightarrow>
            bulkCheckIn en d u (Some ids) m = (d, Reply 403 (Error ''Access denied'')))"
  using assms
  by (simp add: accessDenied_def getEventParticipants_def getParticipantById_def
      updateParticipant_def deleteParticipant_def checkInParticipant_def bulkCheckIn_def
      Let_def)

text \<open>
  C3, witness: a caller who is not the organizer of event 1 and has no admin role,
  against event 1 and its participants.
\<close>

theorem forbidden_without_mutation_witness:
  "organizerId ev_gala \<noteq> u_id stranger \<and> role stranger \<noteq> ''admin''
   \<and> Event_findByPk db0 1 = Some ev_gala
   \<and> Participant_findByPk db0 1 = Some p_ada \<and> Event_findByPk db0 (eventId p_ada) = Some ev_gala
   \<and> Participant_findAll db0 [2, 1] = [p_ada, p_bob]
   \<and> getEventParticipants env0 db0 stranger 1
        \<lparr>q_status = None, q_checkedIn = None, q_search = None, q_page = None, q_limit = None\<rparr>
        = (db0, Reply 403 (Error ''Access denied''))
   \<and> getParticipantById db0 stranger 1 = (db0, Reply 403 (Error ''Access denied''))
   \<and> updateParticipant db0 stranger 1 (checkInValues env0 ''qr'')
        = (db0, Reply 403 (Error ''Access denied''))
   \<and> deleteParticipant db0 stranger 1 = (db0, Reply 403 (Error ''Access denied''))
   \<and> checkInParticipant env0 db0 stranger 1 None = (db0, Reply 403 (Error ''Access denied''))
   \<and> bulkCheckIn env0 db0 stranger (Some [2, 1]) None
        = (db0, Reply 403 (Error ''Access denied''))"
proof -
  have h1: "organizerId ev_gala \<noteq> u_id stranger" and h2: "role stranger \<noteq> ''admin''"
    by (simp_all add: example_rows)
  have e: "Event_findByPk db0 1 = Some ev_gala"
    and e': "Event_findByPk db0 (eventId p_ada) = Some ev_gala"
    by (simp_all add: Event_findByPk_def example_rows)
  have p: "Participant_findByPk db0 1 = Some p_ada"
    by (simp add: Participant_findByPk_def example_rows)
  have f: "Participant_findAll db0 [2, 1] = [p_ada, p_bob]"
    by (simp add: Participant_findAll_def example_rows)
  note t = forbidden_without_mutation [OF h1 h2, where d = db0 and eid = 1 and i = 1
      and p = p_ada and ?p0.0 = p_ada and rest = "[p_bob]" and ids = "[2, 1]" and en = env0
      and m = None and a = "checkInValues env0 ''qr''"
      and q = "\<lparr>q_status = None, q_checkedIn = None, q_search = None, q_page = None,
                 q_limit = None\<rparr>"]
  from t h1 h2 e e' p f show ?thesis by simp
qed

text \<open>
  C7. An authorized delete of an existing participant answers 200, removes the rows
  with that id and no other row, makes a later get-by-id answer 404 "Participant not
  found", lowers the owning event's totalRegistrations by exactly 1 with its other fields
  unchanged, and changes no other event.
\<close>

theorem delete_removes_row_and_decrements:
  assumes "Participant_findByPk d i = Some p" and "Event_findByPk d (eventId p) = Some ev"
    and "\<not> accessDenied ev u"
  shows "\<exists>d'. deleteParticipant d u i
            = (d', Reply 200 (Message ''Participant deleted successfully''))
     \<and> participants d' = filter (\<lambda>r. p_id r \<noteq> i) (participants d)
     \<and> getParticipantById d' u' i = (d', Reply 404 (Error ''Participant not found''))
     \<and> Event_findByPk d' (eventId p)
          = Some (ev\<lparr>totalRegistrations := totalRegistrations ev - 1\<rparr>)
     \<and> (\<forall>k. k \<noteq> eventId p \<longrightarrow> Event_findByPk d' k = Event_findByPk d k)"
proof -
  let ?d1 = "Participant_destroy p d"
  let ?d' = "Event_decrement ev TotalRegistrations 1 ?d1"
  have pk: "p_id p = i"
    using assms(1) find_participant_pk [of i "participants d" p]
    by (simp add: Participant_findByPk_def)
  have ev1: "events ?d1 = events d" by (simp add: Participant_destroy_def)
  have r: "deleteParticipant d u i = (?d', Reply 200 (Message ''Participant deleted successfully''))"
    using assms by (simp add: deleteParticipant_def Let_def)
  have rows: "participants ?d' = filter (\<lambda>r. p_id r \<noteq> i) (participants d)"
    by (simp add: Event_decrement_def Event_increment_def Participant_destroy_def pk)
  have gone: "Participant_findByPk ?d' i = None"
    by (simp add: Participant_findByPk_def rows find_destroyed)
  have g: "getParticipantById ?d' u' i = (?d', Reply 404 (Error ''Participant not found''))"
    using gone by (simp add: getParticipantById_def)
  have c: "Event_findByPk ?d' (eventId p)
      = Some (ev\<lparr>totalRegistrations := totalRegistrations ev - 1\<rparr>)"
    using Event_findByPk_bumped' [OF assms(2) ev1, of TotalRegistrations "- 1"]
    by (simp add: Event_decrement_def bump_def)
  have o: "\<forall>k. k \<noteq> eventId p \<longrightarrow> Event_findByPk ?d' k = Event_findByPk d k"
    using Event_findByPk_bumped_other [OF assms(2) ev1, of _ TotalRegistrations "- 1"]
    by (simp add: Event_decrement_def)
  show ?thesis
    by (rule exI [of _ ?d']) (intro conjI r rows g c o)
qed

text \<open>
  C7, witness: the organizer of event 1 deletes participant 1.
\<close>

theorem delete_removes_row_and_decrements_witness:
  "Participant_findByPk db0 1 = Some p_ada \<and> Event_findByPk db0 (eventId p_ada) = Some ev_gala
   \<and> \<not> accessDenied ev_gala organizer
   \<and> (\<exists>d'. deleteParticipant db0 organizer 1
            = (d', Reply 200 (Message ''Participant deleted successfully''))
        \<and> participants d' = [p_bob, p_lost, p_dee, p_eve]
        \<and> getParticipantById d' admin 1 = (d', Reply 404 (Error ''Participant not found''))
        \<and> Event_findByPk d' 1 = Some (ev_gala\<lparr>totalRegistrations := 1\<rparr>)
        \<and> Event_findByPk d' 4 = Some ev_full)"
proof -
  have h1: "Participant_findByPk db0 1 = Some p_ada"
    by (simp add: Participant_findByPk_def example_rows)
  have h2: "Event_findByPk db0 (eventId p_ada) = Some ev_gala"
    by (simp add: Event_findByPk_def example_rows)
  have h3: "\<not> accessDenied ev_gala organizer"
    by (simp add: accessDenied_def example_rows)
  have f: "filter (\<lambda>r. p_id r \<noteq> 1) (participants db0) = [p_bob, p_lost, p_dee, p_eve]"
    by (simp add: example_rows)
  have e: "eventId p_ada = 1" "totalRegistrations ev_gala - 1 = 1" "(4::nat) \<noteq> 1"
    by (simp_all add: example_rows)
  have e4: "Event_findByPk db0 4 = Some ev_full"
    by (simp add: Event_findByPk_def example_rows)
  from delete_removes_row_and_decrements [OF h1 h2 h3, of admin, unfolded f e]
  obtain d' where d': "deleteParticipant db0 organizer 1
            = (d', Reply 200 (Message ''Participant deleted successfully''))"
    "participants d' = [p_bob, p_lost, p_dee, p_eve]"
    "getParticipantById d' admin 1 = (d', Reply 404 (Error ''Participant not found''))"
    "Event_findByPk d' 1 = Some (ev_gala\<lparr>totalRegistrations := 1\<rparr>)"
    "\<forall>k. k \<noteq> 1 \<longrightarrow> Event_findByPk d' k = Event_findByPk db0 k"
    by blast
  from d'(5) e(3) e4 have "Event_findByPk d' 4 = Some ev_full" by simp
  with d'(1-4) h1 h2 h3 show ?thesis by blast
qed

text \<open>
  C5. For a participant who is not checked in, an authorized first check-in answers
  200 with the participant updated (checkedIn, checkInTime, checkInMethod, status
  "attended") and raises the event's totalAttendees by 1; a second check-in on the
  resulting store answers 400 "Participant already checked in" and leaves that store as
  it is, so the two calls raise totalAttendees by exactly 1.
\<close>

theorem checkin_twice:
  assumes "Participant_findByPk d i = Some p" and "\<not> checkedIn p"
    and "Event_findByPk d (eventId p) = Some ev" and "\<not> accessDenied ev u"
  shows "\<exists>d1 p1. checkInParticipant en d u i m
            = (d1, Reply 200 (ParticipantMessage p1 ''Check-in successful''))
     \<and> p1 = p\<lparr>checkedIn := True, checkInTime := Some (now en),
               checkInMethod := orElse m ''manual'', p_status := ''attended''\<rparr>
     \<and> Participant_findByPk d1 i = Some p1
     \<and> Event_findByPk d1 (eventId p) = Some (ev\<lparr>totalAttendees := totalAttendees ev + 1\<rparr>)
     \<and> checkInParticipant en' d1 u i m'
          = (d1, Reply 400 (Error ''Participant already checked in''))"
proof -
  let ?v = "checkInValues en (orElse m ''manual'')"
  let ?p1 = "applyAttrs ?v p"
  let ?d0 = "snd (Participant_update p ?v d)"
  let ?d1 = "Event_increment ev TotalAttendees 1 ?d0"
  let ?ev1 = "ev\<lparr>totalAttendees := totalAttendees ev + 1\<rparr>"
  have pk: "p_id p = i"
    using assms(1) find_participant_pk [of i "participants d" p]
    by (simp add: Participant_findByPk_def)
  have ev0: "events ?d0 = events d" by (simp add: Participant_update_def)
  have r: "checkInParticipant en d u i m
      = (?d1, Reply 200 (ParticipantMessage ?p1 ''Check-in successful''))"
    using assms by (simp add: checkInParticipant_def Let_def Participant_update_def)
  have p1: "?p1 = p\<lparr>checkedIn := True, checkInTime := Some (now en),
               checkInMethod := orElse m ''manual'', p_status := ''attended''\<rparr>"
    by (simp add: applyAttrs_def checkInValues_def orElse_def)
  have f: "Participant_findByPk ?d1 i = Some ?p1"
    using assms(1) find_updated [of i "participants d" p ?v]
    by (simp add: Participant_findByPk_def Event_increment_def Participant_update_def pk)
  have e: "Event_findByPk ?d1 (eventId p) = Some ?ev1"
    using Event_findByPk_bumped' [OF assms(3) ev0, of TotalAttendees 1]
    by (simp add: bump_def)
  have same: "eventId ?p1 = eventId p" "checkedIn ?p1" by (simp_all add: p1)
  have auth: "\<not> accessDenied ?ev1 u"
    using assms(4) by (simp add: accessDenied_def)
  have again: "checkInParticipant en' ?d1 u i m'
      = (?d1, Reply 400 (Error ''Participant already checked in''))"
    using f e same auth by (simp add: checkInParticipant_def Let_def)
  show ?thesis
    by (rule exI [of _ ?d1], rule exI [of _ ?p1]) (intro conjI r p1 f e again)
qed

text \<open>
  C5, witness: the organizer of event 1 checks participant 1 in twice.
\<close>

theorem checkin_twice_witness:
  "Participant_findByPk db0 1 = Some p_ada \<and> \<not> checkedIn p_ada
   \<and> Event_findByPk db0 (eventId p_ada) = Some ev_gala \<and> \<not> accessDenied ev_gala organizer
   \<and> (\<exists>d1. checkInParticipant env0 db0 organizer 1 (Some ''qr'')
            = (d1, Reply 200 (ParticipantMessage
                 (p_ada\<lparr>checkedIn := True, checkInTime := Some 1000, checkInMethod := ''qr'',
                         p_status := ''attended''\<rparr>) ''Check-in successful''))
        \<and> Event_findByPk d1 1 = Some (ev_gala\<lparr>totalAttendees := 2\<rparr>)
        \<and> checkInParticipant env_down d1 organizer 1 None
             = (d1, Reply 400 (Error ''Participant already checked in'')))"
proof -
  have h1: "Participant_findByPk db0 1 = Some p_ada"
    by (simp add: Participant_findByPk_def example_rows)
  have h2: "\<not> checkedIn p_ada" by (simp add: example_rows)
  have h3: "Event_findByPk db0 (eventId p_ada) = Some ev_gala"
    by (simp add: Event_findByPk_def example_rows)
  have h4: "\<not> accessDenied ev_gala organizer"
    by (simp add: accessDenied_def example_rows)
  have e: "eventId p_ada = 1" "totalAttendees ev_gala + 1 = 2" "now env0 = 1000"
    "orElse (Some ''qr'') ''manual'' = ''qr''"
    by (simp_all add: example_rows env0_fields orElse_def)
  note t = checkin_twice [OF h1 h2 h3 h4, of env0 "Some ''qr''" env_down None, unfolded e]
  from t h1 h2 h3 h4 show ?thesis by blast
qed

section \<open>Bulk check-in: the claim\<close>

lemma applyAttrs_idem: "applyAttrs a (applyAttrs a r) = applyAttrs a r"
  by (simp add: applyAttrs_def orElse_def split: option.splits)

lemma checkInEach_updated:
  "fst (checkInEach en m ps (acc, d))
     = acc @ map (applyAttrs (checkInValues en m)) (filter (\<lambda>p. \<not> checkedIn p) ps)"
  by (induction ps arbitrary: acc d) (simp_all add: Participant_update_def)

lemma checkInEach_events: "events (snd (checkInEach en m ps (acc, d))) = events d"
  by (induction ps arbitrary: acc d) (simp_all add: Participant_update_def)

lemma checkInEach_rows:
  "participants (snd (checkInEach en m ps (acc, d)))
     = map (\<lambda>r. if \<exists>q \<in> set ps. \<not> checkedIn q \<and> p_id q = p_id r
                then applyAttrs (checkInValues en m) r else r) (participants d)"
proof (induction ps arbitrary: acc d)
  case Nil
  show ?case by simp
next
  case (Cons p ps)
  show ?case
    by (cases "checkedIn p") (auto simp: Cons Participant_update_def applyAttrs_idem)
qed

lemma findAll_length:
  assumes "distinct (map p_id (participants d))" and "distinct ids"
    and "set ids \<subseteq> p_id ` set (participants d)"
  shows "length (Participant_findAll d ids) = length ids"
proof -
  let ?f = "Participant_findAll d ids"
  have m: "map p_id ?f = filter (\<lambda>k. k \<in> set ids) (map p_id (participants d))"
    by (simp add: Participant_findAll_def filter_map comp_def)
  have dist: "distinct (map p_id ?f)" using assms(1) by (simp add: m)
  have "set (map p_id ?f) = set ids" using assms(3) by (auto simp: m)
  then have "card (set (map p_id ?f)) = card (set ids)" by simp
  then show ?thesis
    using distinct_card [OF dist] distinct_card [OF assms(2)] by simp
qed

lemma touched_rows:
  assumes "distinct (map p_id ps)" and "r \<in> set ps"
  shows "(\<exists>q \<in> set (filter (\<lambda>p. p_id p \<in> set ids) ps). \<not> checkedIn q \<and> p_id q = p_id r)
           \<longleftrightarrow> p_id r \<in> set ids \<and> \<not> checkedIn r"
proof -
  have inj: "inj_on p_id (set ps)" using assms(1) by (simp add: distinct_map)
  show ?thesis
    using assms(2) inj by (auto simp: inj_on_def)
qed

lemma applyAttrs_checkIn:
  "applyAttrs (checkInValues en m) p
     = p\<lparr>checkedIn := True, checkInTime := Some (now en), checkInMethod := m,
          p_status := ''attended''\<rparr>"
  by (simp add: applyAttrs_def checkInValues_def orElse_def)

text \<open>
  C6. A bulk check-in by an authorized caller over N distinct ids that all match
  existing participants (N at least 1; primary keys are unique), of which K are already
  checked in, answers 200: the N - K participants not yet checked in are each updated as
  in the single check-in, every other row (the K already checked in among them) is left
  as it was, the returned list holds the N - K updated participants, and the
  totalAttendees of the event (that of the first fetched participant) is raised by
  exactly N - K.
\<close>

theorem bulk_checkin_counts:
  assumes pk: "distinct (map p_id (participants d))"
    and ids: "distinct ids" "set ids \<subseteq> p_id ` set (participants d)"
    and found: "Participant_findAll d ids = p0 # rest"
    and ev: "Event_findByPk d (eventId p0) = Some ev"
    and auth: "\<not> accessDenied ev u"
    and N: "N = length ids"
    and K: "K = length (filter checkedIn (Participant_findAll d ids))"
  shows "\<exists>d' updated. bulkCheckIn en d u (Some ids) m
            = (d', Reply 200 (BulkResult
                 (string_of_nat (N - K) @ '' participants checked in'') updated))
     \<and> length updated = N - K
     \<and> updated = map (\<lambda>p. p\<lparr>checkedIn := True, checkInTime := Some (now en),
                               checkInMethod := orElse m ''manual'', p_status := ''attended''\<rparr>)
                    (filter (\<lambda>p. \<not> checkedIn p) (Participant_findAll d ids))
     \<and> participants d'
          = map (\<lambda>r. if p_id r \<in> set ids \<and> \<not> checkedIn r
                     then r\<lparr>checkedIn := True, checkInTime := Some (now en),
                            checkInMethod := orElse m ''manual'', p_status := ''attended''\<rparr>
                     else r) (participants d)
     \<and> Event_findByPk d' (eventId p0)
          = Some (ev\<lparr>totalAttendees := totalAttendees ev + int (N - K)\<rparr>)"
proof -
  let ?m = "orElse m ''manual''"
  let ?ps = "Participant_findAll d ids"
  let ?run = "checkInEach en ?m ?ps ([], d)"
  let ?updated = "fst ?run"
  let ?d1 = "snd ?run"
  let ?d' = "Event_increment ev TotalAttendees (int (length ?updated)) ?d1"
  have r: "bulkCheckIn en d u (Some ids) m
      = (?d', Reply 200 (BulkResult
           (string_of_nat (length ?updated) @ '' participants checked in'') ?updated))"
  proof -
    obtain upd d1 where run: "checkInEach en ?m (p0 # rest) ([], d) = (upd, d1)"
      by (cases "checkInEach en ?m (p0 # rest) ([], d)") blast
    show ?thesis
      using found ev auth run
      by (simp add: bulkCheckIn_def Let_def del: checkInEach.simps string_of_nat.simps)
  qed
  have u: "?updated = map (\<lambda>p. p\<lparr>checkedIn := True, checkInTime := Some (now en),
                               checkInMethod := ?m, p_status := ''attended''\<rparr>)
                    (filter (\<lambda>p. \<not> checkedIn p) ?ps)"
    by (simp add: checkInEach_updated applyAttrs_checkIn)
  have "length (filter checkedIn ?ps) + length (filter (\<lambda>p. \<not> checkedIn p) ?ps) = length ?ps"
    by (rule sum_length_filter_compl)
  then have l: "length ?updated = N - K"
    using findAll_length [OF pk ids] N K by (simp add: u)
  have rows: "participants ?d'
      = map (\<lambda>r. if p_id r \<in> set ids \<and> \<not> checkedIn r
                 then r\<lparr>checkedIn := True, checkInTime := Some (now en),
                        checkInMethod := ?m, p_status := ''attended''\<rparr>
                 else r) (participants d)"
    using touched_rows [OF pk, of _ ids]
    by (simp add: Event_increment_def checkInEach_rows Participant_findAll_def
        applyAttrs_checkIn cong: if_cong)
  have e: "Event_findByPk ?d' (eventId p0)
      = Some (ev\<lparr>totalAttendees := totalAttendees ev + int (N - K)\<rparr>)"
    using Event_findByPk_bumped' [OF ev checkInEach_events, of TotalAttendees]
    by (simp add: bump_def l)
  have r': "bulkCheckIn en d u (Some ids) m
      = (?d', Reply 200 (BulkResult
           (string_of_nat (N - K) @ '' participants checked in'') ?updated))"
    using r by (simp only: l)
  show ?thesis
    by (rule exI [of _ ?d'], rule exI [of _ ?updated]) (intro conjI r' l u rows e)
qed

text \<open>
  C6, witness: the organizer of event 1 checks in participants 2 and 1, of whom
  participant 2 is already checked in.
\<close>

theorem bulk_checkin_counts_witness:
  "distinct (map p_id (participants db0)) \<and> distinct [2, 1 :: nat]
   \<and> set [2, 1] \<subseteq> p_id ` set (participants db0)
   \<and> Participant_findAll db0 [2, 1] = [p_ada, p_bob]
   \<and> Event_findByPk db0 (eventId p_ada) = Some ev_gala \<and> \<not> accessDenied ev_gala organizer
   \<and> length (filter checkedIn (Participant_findAll db0 [2, 1])) = 1
   \<and> (\<exists>d'. bulkCheckIn env0 db0 organizer (Some [2, 1]) (Some ''qr'')
            = (d', Reply 200 (BulkResult ''1 participants checked in''
                 [p_ada\<lparr>checkedIn := True, checkInTime := Some 1000, checkInMethod := ''qr'',
                         p_status := ''attended''\<rparr>]))
        \<and> participants d'
             = [p_ada\<lparr>checkedIn := True, checkInTime := Some 1000, checkInMethod := ''qr'',
                      p_status := ''attended''\<rparr>, p_bob, p_lost, p_dee, p_eve]
        \<and> Event_findByPk d' 1 = Some (ev_gala\<lparr>totalAttendees := 2\<rparr>))"
proof -
  let ?ada = "p_ada\<lparr>checkedIn := True, checkInTime := Some 1000, checkInMethod := ''qr'',
                    p_status := ''attended''\<rparr>"
  have pk: "distinct (map p_id (participants db0))" by (simp add: example_rows)
  have i1: "distinct [2, 1 :: nat]" by simp
  have i2: "set [2, 1] \<subseteq> p_id ` set (participants db0)" by (simp add: example_rows)
  have found: "Participant_findAll db0 [2, 1] = [p_ada, p_bob]"
    by (simp add: Participant_findAll_def example_rows)
  have ev: "Event_findByPk db0 (eventId p_ada) = Some ev_gala"
    by (simp add: Event_findByPk_def example_rows)
  have auth: "\<not> accessDenied ev_gala organizer"
    by (simp add: accessDenied_def example_rows)
  have hN: "(2::nat) = length [2, 1 :: nat]" by simp
  have hK: "(1::nat) = length (filter checkedIn (Participant_findAll db0 [2, 1]))"
    unfolding found by (simp add: p_ada_def p_bob_def)
  have c1: "string_of_nat (2 - 1) = ''1''" by simp
  have c2: "map (\<lambda>p. p\<lparr>checkedIn := True, checkInTime := Some (now env0),
                        checkInMethod := orElse (Some ''qr'') ''manual'',
                        p_status := ''attended''\<rparr>)
              (filter (\<lambda>p. \<not> checkedIn p) (Participant_findAll db0 [2, 1])) = [?ada]"
    unfolding found by (simp add: env0_fields orElse_def p_ada_def p_bob_def)
  have c3: "map (\<lambda>r. if p_id r \<in> set [2, 1] \<and> \<not> checkedIn r
                     then r\<lparr>checkedIn := True, checkInTime := Some (now env0),
                            checkInMethod := orElse (Some ''qr'') ''manual'',
                            p_status := ''attended''\<rparr>
                     else r) (participants db0)
            = [?ada, p_bob, p_lost, p_dee, p_eve]"
    by (simp add: env0_fields orElse_def db0_def)
       (simp add: p_ada_def p_bob_def p_lost_def p_dee_def p_eve_def)
  have c4: "eventId p_ada = 1" "totalAttendees ev_gala + int (2 - 1) = 2"
    by (simp_all add: example_rows)
  from bulk_checkin_counts [OF pk i1 i2 found ev auth hN hK,
      where en = env0 and m = "Some ''qr''"]
  obtain d' updated where
    r: "bulkCheckIn env0 db0 organizer (Some [2, 1]) (Some ''qr'')
          = (d', Reply 200 (BulkResult
               (string_of_nat (2 - 1) @ '' participants checked in'') updated))"
    and u: "updated = map (\<lambda>p. p\<lparr>checkedIn := True, checkInTime := Some (now env0),
                        checkInMethod := orElse (Some ''qr'') ''manual'',
                        p_status := ''attended''\<rparr>)
              (filter (\<lambda>p. \<not> checkedIn p) (Participant_findAll db0 [2, 1]))"
    and rows: "participants d'
          = map (\<lambda>r. if p_id r \<in> set [2, 1] \<and> \<not> checkedIn r
                     then r\<lparr>checkedIn := True, checkInTime := Some (now env0),
                            checkInMethod := orElse (Some ''qr'') ''manual'',
                            p_status := ''attended''\<rparr>
                     else r) (participants db0)"
    and e: "Event_findByPk d' (eventId p_ada)
          = Some (ev_gala\<lparr>totalAttendees := totalAttendees ev_gala + int (2 - 1)\<rparr>)"
    by blast
  have r': "bulkCheckIn env0 db0 organizer (Some [2, 1]) (Some ''qr'')
          = (d', Reply 200 (BulkResult ''1 participants checked in'' [?ada]))"
    using r u by (simp only: c1 c2) simp
  have rows': "participants d' = [?ada, p_bob, p_lost, p_dee, p_eve]"
    using rows by (simp only: c3)
  have e': "Event_findByPk d' 1 = Some (ev_gala\<lparr>totalAttendees := 2\<rparr>)"
    using e by (simp only: c4)
  have k: "length (filter checkedIn (Participant_findAll db0 [2, 1])) = 1"
    using hK by simp
  from r' rows' e' have "\<exists>d'. bulkCheckIn env0 db0 organizer (Some [2, 1]) (Some ''qr'')
            = (d', Reply 200 (BulkResult ''1 participants checked in'' [?ada]))
        \<and> participants d' = [?ada, p_bob, p_lost, p_dee, p_eve]
        \<and> Event_findByPk d' 1 = Some (ev_gala\<lparr>totalAttendees := 2\<rparr>)"
    by (intro exI [of _ d'] conjI)
  with pk i1 i2 found ev auth k show ?thesis by (intro conjI)
qed

end
